theory Spec2Isabelle
  imports Complex_Main
begin

section \<open>Numbers and errors of the Python program\<close>

text \<open>
  The exceptions that the modelled functions of \<^verbatim>\<open>metrics.py\<close> and
  \<^verbatim>\<open>transforms.py\<close> can raise.
\<close>

datatype py_error = IndexError | ZeroDivisionError | OverflowError | ValueError

text \<open>
  A numpy float: a finite value or one of the IEEE special values. Finite arithmetic is
  exact unless a rounded operation is named; the special values follow IEEE 754, which is what
  decides which samples \<^verbatim>\<open>np.isnan\<close> and \<^verbatim>\<open>np.nanmean\<close> drop. The sign of a zero is
  not recorded: a zero divisor is taken as \<^verbatim>\<open>+0.0\<close>.
\<close>

datatype fl = Fin real | PInf | NInf | NaN

fun isnan :: "fl \<Rightarrow> bool" where
  "isnan NaN = True"
| "isnan _ = False"

fun fl_add :: "fl \<Rightarrow> fl \<Rightarrow> fl" where
  "fl_add (Fin a) (Fin b) = Fin (a + b)"
| "fl_add NaN _ = NaN"
| "fl_add _ NaN = NaN"
| "fl_add PInf NInf = NaN"
| "fl_add NInf PInf = NaN"
| "fl_add PInf _ = PInf"
| "fl_add _ PInf = PInf"
| "fl_add NInf _ = NInf"
| "fl_add _ NInf = NInf"

fun fl_neg :: "fl \<Rightarrow> fl" where
  "fl_neg (Fin a) = Fin (- a)"
| "fl_neg PInf = NInf"
| "fl_neg NInf = PInf"
| "fl_neg NaN = NaN"

definition fl_sub :: "fl \<Rightarrow> fl \<Rightarrow> fl" where
  "fl_sub a b = fl_add a (fl_neg b)"

text \<open>Division of numpy floats: a zero divisor gives an infinity or NaN, never an exception.\<close>

fun fl_div :: "fl \<Rightarrow> fl \<Rightarrow> fl" where
  "fl_div (Fin a) (Fin b) =
     (if b \<noteq> 0 then Fin (a / b)
      else if a = 0 then NaN else if 0 < a then PInf else NInf)"
| "fl_div NaN _ = NaN"
| "fl_div _ NaN = NaN"
| "fl_div (Fin a) _ = Fin 0"
| "fl_div PInf (Fin b) = (if 0 \<le> b then PInf else NInf)"
| "fl_div NInf (Fin b) = (if 0 \<le> b then NInf else PInf)"
| "fl_div _ _ = NaN"

fun fl_abs :: "fl \<Rightarrow> fl" where
  "fl_abs (Fin a) = Fin \<bar>a\<bar>"
| "fl_abs PInf = PInf"
| "fl_abs NInf = PInf"
| "fl_abs NaN = NaN"

fun fl_floor :: "fl \<Rightarrow> fl" where
  "fl_floor (Fin a) = Fin (of_int \<lfloor>a\<rfloor>)"
| "fl_floor v = v"

fun fl_ceil :: "fl \<Rightarrow> fl" where
  "fl_ceil (Fin a) = Fin (of_int \<lceil>a\<rceil>)"
| "fl_ceil v = v"

text \<open>\<^verbatim>\<open>x % 2\<close> on a numpy float: the remainder has the sign of the divisor; NaN for a non-finite \<^verbatim>\<open>x\<close>.\<close>

fun fl_mod2 :: "fl \<Rightarrow> fl" where
  "fl_mod2 (Fin a) = Fin (a - 2 * of_int \<lfloor>a / 2\<rfloor>)"
| "fl_mod2 _ = NaN"

text \<open>\<^verbatim>\<open>v != 0\<close>: every comparison with NaN is unequal.\<close>

fun fl_nonzero :: "fl \<Rightarrow> bool" where
  "fl_nonzero (Fin a) = (a \<noteq> 0)"
| "fl_nonzero _ = True"

text \<open>\<^verbatim>\<open>int(v)\<close>: truncation towards zero; an infinity or NaN raises.\<close>

fun py_int :: "fl \<Rightarrow> py_error + int" where
  "py_int (Fin a) = Inr (if 0 \<le> a then \<lfloor>a\<rfloor> else \<lceil>a\<rceil>)"
| "py_int PInf = Inl OverflowError"
| "py_int NInf = Inl OverflowError"
| "py_int NaN = Inl ValueError"

text \<open>
  A scalar is either a plain Python number or a numpy scalar. The difference matters for
  division by zero: Python raises \<^verbatim>\<open>ZeroDivisionError\<close>, numpy returns an infinity or NaN.
\<close>

datatype scalar = PyNum real | NpNum fl

section \<open>The window slider\<close>

text \<open>
  \<^verbatim>\<open>Metrics\<close> and \<^verbatim>\<open>Transforms\<close> carry the same three fields and define \<^verbatim>\<open>slide\<close> with the
  same body, statement for statement; one record and one function model both.
\<close>

record slider =
  window_length :: int
  current_position :: int
  window_overlap :: int

text \<open>The backing sequence is a numpy array of one dimension, or of two (a list of rows).\<close>

datatype ndarray = Arr1 "fl list" | Arr2 "fl list list"

text \<open>
  Python's slice \<^verbatim>\<open>xs[start:stop]\<close>: a negative bound counts from the end, and every
  bound is clamped into \<^verbatim>\<open>0..len(xs)\<close>; a slice never raises.
\<close>

definition clamp_bound :: "nat \<Rightarrow> int \<Rightarrow> nat" where
  "clamp_bound n i = (if i < 0 then nat (max (i + int n) 0) else min (nat i) n)"

definition py_slice :: "'a list \<Rightarrow> int \<Rightarrow> int \<Rightarrow> 'a list" where
  "py_slice xs start stop =
     (let lo = clamp_bound (length xs) start; hi = clamp_bound (length xs) stop
      in take (hi - lo) (drop lo xs))"

fun arr_slice :: "ndarray \<Rightarrow> int \<Rightarrow> int \<Rightarrow> ndarray" where
  "arr_slice (Arr1 xs) start stop = Arr1 (py_slice xs start stop)"
| "arr_slice (Arr2 rows) start stop = Arr2 (py_slice rows start stop)"

fun arr_len :: "ndarray \<Rightarrow> nat" where
  "arr_len (Arr1 xs) = length xs"
| "arr_len (Arr2 rows) = length rows"

text \<open>
  \<^verbatim>\<open>window[~np.isnan(window)]\<close> for one dimension,
  \<^verbatim>\<open>window[~np.isnan(window).any(axis=1)]\<close> for two.
\<close>

fun strip_nan :: "ndarray \<Rightarrow> ndarray" where
  "strip_nan (Arr1 xs) = Arr1 (filter (\<lambda>v. \<not> isnan v) xs)"
| "strip_nan (Arr2 rows) = Arr2 (filter (\<lambda>r. \<not> list_ex isnan r) rows)"

text \<open>\<^verbatim>\<open>slide(self, x, update)\<close> returns the window and the slider as the call leaves it.\<close>

definition slide :: "slider \<Rightarrow> ndarray \<Rightarrow> bool \<Rightarrow> ndarray \<times> slider" where
  "slide self x update =
     (let window = arr_slice x (current_position self - window_length self)
                     (current_position self);
          window = (if 0 < arr_len window then strip_nan window else window);
          self = (if update
                  then self\<lparr>current_position := current_position self + window_overlap self\<rparr>
                  else self)
      in (window, self))"

text \<open>
  A run of the slider: the slider left by successive calls \<^verbatim>\<open>slide(x, update=True)\<close>,
  one for each backing sequence of the list.
\<close>

fun slide_calls :: "slider \<Rightarrow> ndarray list \<Rightarrow> slider" where
  "slide_calls self [] = self"
| "slide_calls self (x # xs) = slide_calls (snd (slide self x True)) xs"

section \<open>Sampling frequency and window length\<close>

text \<open>
  \<^verbatim>\<open>sampling_frequency + (timestamps_[idx] - timestamps_[idx - 1])\<close>: the accumulator starts
  as the Python integer 0; the difference of two array elements is a numpy scalar, and so
  is every sum with it.
\<close>

definition acc_add :: "scalar \<Rightarrow> real \<Rightarrow> scalar" where
  "acc_add s d = (case s of PyNum a \<Rightarrow> NpNum (Fin (a + d)) | NpNum v \<Rightarrow> NpNum (fl_add v (Fin d)))"

text \<open>The loop of lines 152 to 154 over successive pairs of timestamps.\<close>

fun accumulate_deltas :: "scalar \<Rightarrow> real list \<Rightarrow> scalar" where
  "accumulate_deltas acc (a # b # ts) =
     accumulate_deltas (if b - a < 100 then acc_add acc (b - a) else acc) (b # ts)"
| "accumulate_deltas acc _ = acc"

text \<open>\<^verbatim>\<open>s / len(timestamps_)\<close> and \<^verbatim>\<open>1 / s\<close>: Python raises on a zero divisor, numpy does not.\<close>

definition div_by_len :: "scalar \<Rightarrow> nat \<Rightarrow> py_error + scalar" where
  "div_by_len s n =
     (case s of
        PyNum a \<Rightarrow> if n = 0 then Inl ZeroDivisionError else Inr (PyNum (a / real n))
      | NpNum v \<Rightarrow> Inr (NpNum (fl_div v (Fin (real n)))))"

definition py_recip :: "scalar \<Rightarrow> py_error + scalar" where
  "py_recip s =
     (case s of
        PyNum a \<Rightarrow> if a = 0 then Inl ZeroDivisionError else Inr (PyNum (1 / a))
      | NpNum v \<Rightarrow> Inr (NpNum (fl_div (Fin 1) v)))"

definition establish_sampling_frequency :: "real list \<Rightarrow> py_error + scalar" where
  "establish_sampling_frequency timestamps =
     (case div_by_len (accumulate_deltas (PyNum 0) timestamps) (length timestamps) of
        Inl e \<Rightarrow> Inl e
      | Inr sampling_frequency \<Rightarrow> py_recip sampling_frequency)"

text \<open>\<^verbatim>\<open>np.floor\<close> returns a numpy float whatever scalar it is given.\<close>

fun np_floor :: "scalar \<Rightarrow> fl" where
  "np_floor (PyNum a) = Fin (of_int \<lfloor>a\<rfloor>)"
| "np_floor (NpNum v) = fl_floor v"

text \<open>
  The quotient of two doubles is rounded, and so is every step of the estimator, while
  \<^verbatim>\<open>np.floor\<close>, \<^verbatim>\<open>np.ceil\<close>, \<^verbatim>\<open>% 2\<close> and \<^verbatim>\<open>int\<close> jump at the integers. The window length
  is therefore modelled over the numbers as the machine has them: \<open>estimate\<close> stands for
  \<^verbatim>\<open>establish_sampling_frequency\<close> as it is executed, and \<open>rdiv a b\<close> for the double that
  \<^verbatim>\<open>a / b\<close> yields for finite \<open>a\<close> and \<open>b \<noteq> 0\<close>. (The divisor here is the floor of a number,
  so a quotient cannot overflow.) Both are arguments, and nothing is assumed of them.
\<close>

fun np_truediv :: "(real \<Rightarrow> real \<Rightarrow> real) \<Rightarrow> fl \<Rightarrow> fl \<Rightarrow> fl" where
  "np_truediv rdiv (Fin a) (Fin b) = (if b \<noteq> 0 then Fin (rdiv a b) else fl_div (Fin a) (Fin b))"
| "np_truediv rdiv a b = fl_div a b"

text \<open>\<^verbatim>\<open>Metrics.__init__\<close>: the slider it builds, or the exception it raises.\<close>

definition Metrics_init ::
  "(real list \<Rightarrow> py_error + scalar) \<Rightarrow> (real \<Rightarrow> real \<Rightarrow> real) \<Rightarrow> real list \<Rightarrow> real \<Rightarrow> int
     \<Rightarrow> py_error + slider" where
  "Metrics_init estimate rdiv timestamps aggregation_duration overlap =
     (case estimate timestamps of
        Inl e \<Rightarrow> Inl e
      | Inr sampling_frequency \<Rightarrow>
          (let indexing = np_truediv rdiv (Fin aggregation_duration) (np_floor sampling_frequency);
               indexing = (if fl_nonzero (fl_mod2 indexing) then fl_ceil indexing else indexing)
           in case py_int indexing of
                Inl e \<Rightarrow> Inl e
              | Inr n \<Rightarrow> Inr \<lparr>window_length = n, current_position = 0,
                              window_overlap = overlap\<rparr>))"

text \<open>
  The words of the specification, for comparison: the successive deltas of a timestamp
  sequence, and those below the threshold of 100.
\<close>

fun successive_deltas :: "real list \<Rightarrow> real list" where
  "successive_deltas (a # b # ts) = (b - a) # successive_deltas (b # ts)"
| "successive_deltas _ = []"

definition small_deltas :: "real list \<Rightarrow> real list" where
  "small_deltas ts = filter (\<lambda>d. d < 100) (successive_deltas ts)"

section \<open>Feature functions\<close>

fun fl_ge0 :: "fl \<Rightarrow> bool" where
  "fl_ge0 (Fin a) = (0 \<le> a)"
| "fl_ge0 PInf = True"
| "fl_ge0 _ = False"

fun fl_lt0 :: "fl \<Rightarrow> bool" where
  "fl_lt0 (Fin a) = (a < 0)"
| "fl_lt0 NInf = True"
| "fl_lt0 _ = False"

definition sign :: "nat list" where
  "sign = [1, 0]"

text \<open>The loop of \<^verbatim>\<open>zero_crossings\<close>, over the elements still to visit.\<close>

fun zc_loop :: "fl list \<Rightarrow> nat \<Rightarrow> nat \<Rightarrow> nat" where
  "zc_loop [] direction count_zc = count_zc"
| "zc_loop (v # vs) direction count_zc =
     (if (fl_ge0 v \<and> direction = 0) \<or> (fl_lt0 v \<and> direction = 1)
      then zc_loop vs (sign ! direction) (count_zc + 1)
      else zc_loop vs direction count_zc)"

text \<open>\<^verbatim>\<open>x[0]\<close> is read before the loop: an empty window raises \<^verbatim>\<open>IndexError\<close>.\<close>

definition zero_crossings :: "fl list \<Rightarrow> py_error + nat" where
  "zero_crossings x =
     (case x of
        [] \<Rightarrow> Inl IndexError
      | x0 # _ \<Rightarrow> Inr (zc_loop x (if fl_ge0 x0 then 1 else 0) 0))"

definition fl_sum :: "fl list \<Rightarrow> fl" where
  "fl_sum xs = foldl fl_add (Fin 0) xs"

text \<open>\<^verbatim>\<open>np.mean\<close>: the sum over the count; NaN (with a warning, no exception) for no elements.\<close>

definition np_mean :: "fl list \<Rightarrow> fl" where
  "np_mean xs = fl_div (fl_sum xs) (Fin (real (length xs)))"

definition mean_crossings :: "fl list \<Rightarrow> py_error + nat" where
  "mean_crossings x = zero_crossings (map (\<lambda>v. fl_sub v (np_mean x)) x)"

section \<open>Label analytics\<close>

text \<open>\<^verbatim>\<open>np.unique(labels)\<close>: the distinct labels in ascending order.\<close>

definition unique_lab :: "int list \<Rightarrow> int list" where
  "unique_lab labels = sort (remdups labels)"

text \<open>
  \<^verbatim>\<open>int(np.where(unique_lab == l)[0][0])\<close>: the first position that holds \<open>l\<close>; reading
  element 0 of an empty match raises \<^verbatim>\<open>IndexError\<close>.
\<close>

fun where_first :: "int list \<Rightarrow> int \<Rightarrow> py_error + nat" where
  "where_first [] l = Inl IndexError"
| "where_first (u # us) l =
     (if u = l then Inr 0
      else case where_first us l of Inl e \<Rightarrow> Inl e | Inr i \<Rightarrow> Inr (Suc i))"

text \<open>Reading an array at a non-negative index, and a matrix at a pair of them.\<close>

definition item :: "'a list \<Rightarrow> nat \<Rightarrow> py_error + 'a" where
  "item xs i = (if i < length xs then Inr (xs ! i) else Inl IndexError)"

definition adjacency_at :: "real list list \<Rightarrow> nat \<Rightarrow> nat \<Rightarrow> py_error + real" where
  "adjacency_at adjacency i j =
     (case item adjacency i of Inl e \<Rightarrow> Inl e | Inr row \<Rightarrow> item row j)"

text \<open>
  One pass of the loop of \<^verbatim>\<open>speed\<close> (lines 92 and 93) at index \<open>idx\<close>, on the two
  arrays \<^verbatim>\<open>label_change_array\<close> and \<^verbatim>\<open>label_time_array\<close>.
\<close>

definition speed_step ::
  "int list \<Rightarrow> real list \<Rightarrow> real list list \<Rightarrow> nat \<Rightarrow> fl list \<times> fl list
     \<Rightarrow> py_error + fl list \<times> fl list" where
  "speed_step labels timestamps adjacency idx arrays =
     (case arrays of (label_change_array, label_time_array) \<Rightarrow>
      case where_first (unique_lab labels) (labels ! (idx - 1)) of Inl e \<Rightarrow> Inl e | Inr i \<Rightarrow>
      case where_first (unique_lab labels) (labels ! idx) of Inl e \<Rightarrow> Inl e | Inr j \<Rightarrow>
      case adjacency_at adjacency i j of Inl e \<Rightarrow> Inl e | Inr w \<Rightarrow>
      case item timestamps (idx - 1) of Inl e \<Rightarrow> Inl e | Inr t_prev \<Rightarrow>
      case item timestamps idx of Inl e \<Rightarrow> Inl e | Inr t_cur \<Rightarrow>
        Inr (label_change_array[idx := fl_add (label_change_array ! idx) (Fin w)],
             label_time_array[idx := fl_add (label_time_array ! idx) (Fin (t_prev - t_cur))]))"

fun speed_loop ::
  "int list \<Rightarrow> real list \<Rightarrow> real list list \<Rightarrow> nat list \<Rightarrow> fl list \<times> fl list
     \<Rightarrow> py_error + fl list \<times> fl list" where
  "speed_loop labels timestamps adjacency [] arrays = Inr arrays"
| "speed_loop labels timestamps adjacency (idx # idxs) arrays =
     (case speed_step labels timestamps adjacency idx arrays of
        Inl e \<Rightarrow> Inl e
      | Inr arrays' \<Rightarrow> speed_loop labels timestamps adjacency idxs arrays')"

text \<open>
  \<^verbatim>\<open>np.nanmean\<close>: the mean of the entries that are not NaN (an infinity is kept); NaN, with a
  warning and no exception, when nothing is left.
\<close>

definition nanmean :: "fl list \<Rightarrow> fl" where
  "nanmean xs = np_mean (filter (\<lambda>v. \<not> isnan v) xs)"

definition speed :: "int list \<Rightarrow> real list \<Rightarrow> real list list \<Rightarrow> py_error + fl" where
  "speed labels timestamps adjacency =
     (let n = length labels in
      case speed_loop labels timestamps adjacency [1..<n]
             (replicate n (Fin 0), replicate n (Fin 0)) of
        Inl e \<Rightarrow> Inl e
      | Inr (label_change_array, label_time_array) \<Rightarrow>
          Inr (fl_abs (nanmean (map2 fl_div label_change_array label_time_array))))"

text \<open>
  The words of the specification, for comparison. The adjacency matrix maps a pair of
  labels to a weight, so the labels themselves index it. The ratio of a consecutive pair
  of samples is the weight of (previous label, current label) over the signed time delta
  (the previous timestamp minus the current one, as in the code), and the value the
  specification describes is the mean of the absolute values of the finite ratios.
\<close>

definition pair_ratio :: "int list \<Rightarrow> real list \<Rightarrow> real list list \<Rightarrow> nat \<Rightarrow> fl" where
  "pair_ratio labels timestamps adjacency idx =
     fl_div (Fin (adjacency ! nat (labels ! (idx - 1)) ! nat (labels ! idx)))
            (Fin (timestamps ! (idx - 1) - timestamps ! idx))"

definition pair_ratios :: "int list \<Rightarrow> real list \<Rightarrow> real list list \<Rightarrow> fl list" where
  "pair_ratios labels timestamps adjacency =
     map (pair_ratio labels timestamps adjacency) [1..<length labels]"

fun is_finite :: "fl \<Rightarrow> bool" where
  "is_finite (Fin a) = True"
| "is_finite _ = False"

definition speed_as_specified :: "int list \<Rightarrow> real list \<Rightarrow> real list list \<Rightarrow> fl" where
  "speed_as_specified labels timestamps adjacency =
     np_mean (map fl_abs (filter is_finite (pair_ratios labels timestamps adjacency)))"

text \<open>\<^verbatim>\<open>np.diff\<close>: each element minus the one before it.\<close>

definition np_diff :: "real list \<Rightarrow> real list" where
  "np_diff xs = map2 (\<lambda>a b. b - a) xs (tl xs)"

text \<open>
  \<^verbatim>\<open>np.isclose(a, b)\<close> with its default tolerances: \<open>|a - b| \<le> 1e-8 + 1e-5 * |b|\<close>; a finite
  \<open>a\<close> is close to no infinity and to no NaN.
\<close>

definition isclose :: "real \<Rightarrow> fl \<Rightarrow> bool" where
  "isclose a b = (case b of Fin b' \<Rightarrow> \<bar>a - b'\<bar> \<le> 1 / 10 ^ 8 + 1 / 10 ^ 5 * \<bar>b'\<bar> | _ \<Rightarrow> False)"

text \<open>\<^verbatim>\<open>np.isclose(time, (1/sampling_frequency))\<close>.\<close>

definition is_nominal :: "scalar \<Rightarrow> real \<Rightarrow> py_error + bool" where
  "is_nominal sampling_frequency time =
     (case py_recip sampling_frequency of
        Inl e \<Rightarrow> Inl e
      | Inr (PyNum b) \<Rightarrow> Inr (isclose time (Fin b))
      | Inr (NpNum b) \<Rightarrow> Inr (isclose time b))"

text \<open>Lines 134 to 138: the gaps that are left when the nominal ones are deleted.\<close>

fun delete_nominal :: "scalar \<Rightarrow> real list \<Rightarrow> py_error + real list" where
  "delete_nominal sampling_frequency [] = Inr []"
| "delete_nominal sampling_frequency (time # later) =
     (case is_nominal sampling_frequency time of
        Inl e \<Rightarrow> Inl e
      | Inr c \<Rightarrow>
          (case delete_nominal sampling_frequency later of
             Inl e \<Rightarrow> Inl e
           | Inr kept \<Rightarrow> Inr (if c then kept else time # kept)))"

text \<open>Lines 127 to 129: the timestamps of the samples that bear the label.\<close>

fun collect_times :: "int list \<Rightarrow> real list \<Rightarrow> int \<Rightarrow> nat list \<Rightarrow> py_error + real list" where
  "collect_times labels timestamps lab [] = Inr []"
| "collect_times labels timestamps lab (idx # idxs) =
     (if labels ! idx = lab
      then case item timestamps idx of
             Inl e \<Rightarrow> Inl e
           | Inr t \<Rightarrow>
               (case collect_times labels timestamps lab idxs of
                  Inl e \<Rightarrow> Inl e
                | Inr ts \<Rightarrow> Inr (t # ts))
      else collect_times labels timestamps lab idxs)"

text \<open>The body of the outer loop (lines 127 to 144) for one label: its average gap.\<close>

definition label_average ::
  "int list \<Rightarrow> real list \<Rightarrow> bool \<Rightarrow> scalar \<Rightarrow> int \<Rightarrow> py_error + real" where
  "label_average labels timestamps normalise sampling_frequency lab =
     (case collect_times labels timestamps lab [0..<length labels] of
        Inl e \<Rightarrow> Inl e
      | Inr inter_label_times \<Rightarrow>
          (case (if normalise then delete_nominal sampling_frequency (np_diff inter_label_times)
                 else Inr (np_diff inter_label_times)) of
             Inl e \<Rightarrow> Inl e
           | Inr gaps \<Rightarrow>
               Inr (if gaps = [] then 0 else sum_list gaps / real (length gaps))))"

text \<open>
  The outer loop: \<open>idx_outer\<close> runs over \<^verbatim>\<open>range(number_of_labels)\<close> and the label of the
  pass is \<^verbatim>\<open>labels_[idx_outer]\<close>, the label of the sample at that position.
\<close>

fun average_loop ::
  "int list \<Rightarrow> real list \<Rightarrow> bool \<Rightarrow> scalar \<Rightarrow> nat list \<Rightarrow> py_error + real list" where
  "average_loop labels timestamps normalise sampling_frequency [] = Inr []"
| "average_loop labels timestamps normalise sampling_frequency (idx_outer # rest) =
     (case label_average labels timestamps normalise sampling_frequency (labels ! idx_outer) of
        Inl e \<Rightarrow> Inl e
      | Inr avg \<Rightarrow>
          (case average_loop labels timestamps normalise sampling_frequency rest of
             Inl e \<Rightarrow> Inl e
           | Inr avgs \<Rightarrow> Inr (avg # avgs)))"

text \<open>
  \<^verbatim>\<open>average_time_between_labels\<close>. Its lines 107 to 115 are those of
  \<^verbatim>\<open>establish_sampling_frequency\<close>, word for word.
\<close>

definition average_time_between_labels ::
  "int list \<Rightarrow> real list \<Rightarrow> bool \<Rightarrow> py_error + real list" where
  "average_time_between_labels labels timestamps normalise =
     (case establish_sampling_frequency timestamps of
        Inl e \<Rightarrow> Inl e
      | Inr sampling_frequency \<Rightarrow>
          average_loop labels timestamps normalise sampling_frequency
            [0..<length (unique_lab labels)])"

text \<open>
  An adjacency matrix covers the observed label pairs when it is square and both labels
  of every consecutive pair of samples are indices of it.
\<close>

definition covers :: "real list list \<Rightarrow> int list \<Rightarrow> bool" where
  "covers adjacency labels =
     (list_all (\<lambda>row. length row = length adjacency) adjacency \<and>
      list_all (\<lambda>idx. 0 \<le> labels ! (idx - 1) \<and> nat (labels ! (idx - 1)) < length adjacency \<and>
                      0 \<le> labels ! idx \<and> nat (labels ! idx) < length adjacency)
        [1..<length labels])"

text \<open>
  The labels of a window are their own indices when the distinct labels of the window
  are \<open>0, 1, \<dots>, k - 1\<close>: then the position of a label among the distinct labels, which
  is where the code reads the matrix, is the label.
\<close>

definition labels_are_indices :: "int list \<Rightarrow> bool" where
  "labels_are_indices labels =
     (unique_lab labels = map int [0..<length (unique_lab labels)])"

text \<open>
  Auxiliary notions for the loop of \<^verbatim>\<open>speed\<close>: the weight and the time difference added
  at an index, and the in-place addition to one slot of an array.
\<close>

definition weight_at :: "int list \<Rightarrow> real list list \<Rightarrow> nat \<Rightarrow> real" where
  "weight_at labels adjacency idx = adjacency ! nat (labels ! (idx - 1)) ! nat (labels ! idx)"

definition delta_at :: "real list \<Rightarrow> nat \<Rightarrow> real" where
  "delta_at timestamps idx = timestamps ! (idx - 1) - timestamps ! idx"

definition bump :: "(nat \<Rightarrow> real) \<Rightarrow> nat \<Rightarrow> fl list \<Rightarrow> fl list" where
  "bump f idx a = a[idx := fl_add (a ! idx) (Fin (f idx))]"

section \<open>Spectral entropy\<close>

text \<open>
  \<^verbatim>\<open>spec_entropy\<close> starts with \<^verbatim>\<open>f = np.fft.fft(x)\<close> and \<^verbatim>\<open>F = abs(f)\<close>. The transform is
  numpy's and works in doubles, where a bin that is 0 in exact arithmetic may come out as
  a residue of rounding. The model therefore starts from \<open>F\<close>, the magnitude spectrum as
  numpy returns it: one magnitude, 0 or more, for each sample. On an empty window
  \<^verbatim>\<open>np.fft.fft\<close> raises \<^verbatim>\<open>ValueError\<close>; that is the case of no magnitudes.
\<close>





section \<open>Properties of the slider\<close>

text \<open>
  C10. A call of \<^verbatim>\<open>slide\<close> with \<^verbatim>\<open>update=False\<close> returns the slider as it was
  (position, length and overlap unchanged), and a second such call returns the same
  window as the first.
\<close>

theorem slide_peek_idempotent:
  "snd (slide self x False) = self \<and>
   fst (slide (snd (slide self x False)) x False) = fst (slide self x False)"
  by (simp add: slide_def Let_def)

lemma py_slice_empty_iff:
  assumes "0 \<le> cp" "cp < wl"
  shows "py_slice xs (cp - wl) cp = [] \<longleftrightarrow> wl \<le> int (length xs) \<or> cp = 0 \<or> xs = []"
  using assms by (auto simp add: py_slice_def clamp_bound_def Let_def max_def min_def)

lemma arr_slice_empty_iff:
  assumes "0 \<le> cp" "cp < wl"
  shows "arr_len (arr_slice x (cp - wl) cp) = 0 \<longleftrightarrow> wl \<le> int (arr_len x) \<or> cp = 0 \<or> arr_len x = 0"
  by (cases x) (simp_all add: py_slice_empty_iff[OF assms])

text \<open>
  C3, as the code has it. With \<open>0 \<le> current_position < window_length\<close> the start of the
  slice is negative, and Python counts a negative start from the end of the sequence.
  The window is empty when the backing sequence has at least \<open>window_length\<close> entries,
  when the position is 0, or when the sequence is empty; no call of \<^verbatim>\<open>slide\<close> raises.
\<close>

theorem slide_empty_before_first_window:
  assumes "0 \<le> current_position self" "current_position self < window_length self"
    and "window_length self \<le> int (arr_len x) \<or> current_position self = 0 \<or> arr_len x = 0"
  shows "arr_len (fst (slide self x update)) = 0"
  using arr_slice_empty_iff[OF assms(1,2), of x] assms(3)
  by (simp add: slide_def Let_def)

theorem slide_empty_before_first_window_witness:
  "0 \<le> current_position \<lparr>window_length = 3, current_position = 2, window_overlap = 1\<rparr> \<and>
   current_position \<lparr>window_length = 3, current_position = 2, window_overlap = 1\<rparr>
     < window_length \<lparr>window_length = 3, current_position = 2, window_overlap = 1\<rparr> \<and>
   window_length \<lparr>window_length = 3, current_position = 2, window_overlap = 1\<rparr>
     \<le> int (arr_len (Arr1 [Fin 1, Fin 2, Fin 3, Fin 4])) \<and>
   arr_len (fst (slide \<lparr>window_length = 3, current_position = 2, window_overlap = 1\<rparr>
         (Arr1 [Fin 1, Fin 2, Fin 3, Fin 4]) True)) = 0"
  using slide_empty_before_first_window
    [of "\<lparr>window_length = 3, current_position = 2, window_overlap = 1\<rparr>"
        "Arr1 [Fin 1, Fin 2, Fin 3, Fin 4]" True]
  by simp

text \<open>
  C3 as stated fails on a backing sequence shorter than the window: with four samples,
  length 5 and position 2 the slice is \<^verbatim>\<open>x[-3:2]\<close>, which is \<^verbatim>\<open>x[1:2]\<close>, one sample.
\<close>

theorem slide_short_sequence_counterexample:
  "(0::int) \<le> 2 \<and> (2::int) < 5 \<and>
   slide \<lparr>window_length = 5, current_position = 2, window_overlap = 1\<rparr>
         (Arr1 [Fin 1, Fin 2, Fin 3, Fin 4]) True
   = (Arr1 [Fin 2], \<lparr>window_length = 5, current_position = 3, window_overlap = 1\<rparr>)"
  by (simp add: slide_def Let_def py_slice_def clamp_bound_def)

lemma slide_update_state:
  "snd (slide self x True) = self\<lparr>current_position := current_position self + window_overlap self\<rparr>"
  by (simp add: slide_def Let_def)

lemma slide_calls_fields:
  "current_position (slide_calls self xs) = current_position self + int (length xs) * window_overlap self
   \<and> window_length (slide_calls self xs) = window_length self
   \<and> window_overlap (slide_calls self xs) = window_overlap self"
  by (induction xs arbitrary: self) (simp_all add: slide_update_state algebra_simps)

text \<open>
  C9, as the code has it. For an overlap \<open>O\<close> with \<open>0 \<le> O \<le> L\<close>, a call
  \<^verbatim>\<open>slide(x, update=True)\<close> returns the slice of the backing sequence between the
  position before the call minus \<open>L\<close> and that position, without its missing entries, and
  adds exactly \<open>O\<close> to the position. After any run of such calls the position is the start
  plus \<open>O\<close> per call, it is never below the position after a shorter run, and length and
  overlap are as at the start.
\<close>

theorem slide_advances_by_overlap:
  assumes "0 \<le> window_overlap self" "window_overlap self \<le> window_length self"
  shows "fst (slide self x True) =
      (if 0 < arr_len (arr_slice x (current_position self - window_length self)
                          (current_position self))
       then strip_nan (arr_slice x (current_position self - window_length self)
                          (current_position self))
       else arr_slice x (current_position self - window_length self) (current_position self))
    \<and> snd (slide self x True) = self\<lparr>current_position := current_position self + window_overlap self\<rparr>
    \<and> current_position (slide_calls self xs) = current_position self + int (length xs) * window_overlap self
    \<and> current_position (slide_calls self (take m xs)) \<le> current_position (slide_calls self xs)
    \<and> window_length (slide_calls self xs) = window_length self
    \<and> window_overlap (slide_calls self xs) = window_overlap self"
proof -
  have "int (length (take m xs)) * window_overlap self \<le> int (length xs) * window_overlap self"
    using assms(1) by (intro mult_right_mono) simp_all
  moreover have "fst (slide self x True) =
      (if 0 < arr_len (arr_slice x (current_position self - window_length self)
                          (current_position self))
       then strip_nan (arr_slice x (current_position self - window_length self)
                          (current_position self))
       else arr_slice x (current_position self - window_length self) (current_position self))"
    by (simp add: slide_def Let_def)
  ultimately show ?thesis
    by (simp only: slide_update_state slide_calls_fields simp_thms)
qed

theorem slide_advances_by_overlap_witness:
  "0 \<le> window_overlap \<lparr>window_length = 3, current_position = 3, window_overlap = 2\<rparr> \<and>
   window_overlap \<lparr>window_length = 3, current_position = 3, window_overlap = 2\<rparr>
     \<le> window_length \<lparr>window_length = 3, current_position = 3, window_overlap = 2\<rparr> \<and>
   fst (slide \<lparr>window_length = 3, current_position = 3, window_overlap = 2\<rparr>
          (Arr1 [Fin 1, Fin 2, NaN, Fin 4, Fin 5]) True) = Arr1 [Fin 1, Fin 2] \<and>
   current_position (snd (slide \<lparr>window_length = 3, current_position = 3, window_overlap = 2\<rparr>
          (Arr1 [Fin 1, Fin 2, NaN, Fin 4, Fin 5]) True)) = 5 \<and>
   current_position (slide_calls \<lparr>window_length = 3, current_position = 3, window_overlap = 2\<rparr>
      [Arr1 [Fin 1, Fin 2], Arr1 [Fin 1, Fin 2]]) = 7"
  using slide_advances_by_overlap
    [of "\<lparr>window_length = 3, current_position = 3, window_overlap = 2\<rparr>"
        "Arr1 [Fin 1, Fin 2, NaN, Fin 4, Fin 5]" "[Arr1 [Fin 1, Fin 2], Arr1 [Fin 1, Fin 2]]" 0]
  by (simp add: py_slice_def clamp_bound_def)

text \<open>
  C9 as stated asks only \<open>O \<le> L\<close>. A negative overlap satisfies that and moves the
  position backwards.
\<close>

theorem slide_negative_overlap_counterexample:
  "(-1::int) \<le> 3 \<and>
   current_position (snd (slide \<lparr>window_length = 3, current_position = 0, window_overlap = -1\<rparr> (Arr1 [Fin 1, Fin 2, Fin 3, Fin 4]) True))
     < current_position \<lparr>window_length = 3, current_position = 0, window_overlap = -1\<rparr>"
  by (simp add: slide_def Let_def)

section \<open>Properties of the sampling-frequency estimator\<close>

lemma accumulate_deltas_Np:
  "accumulate_deltas (NpNum (Fin a)) ts = NpNum (Fin (a + sum_list (small_deltas ts)))"
  by (induction "NpNum (Fin a)" ts arbitrary: a rule: accumulate_deltas.induct)
     (simp_all add: small_deltas_def acc_add_def)

lemma accumulate_deltas_Py:
  "accumulate_deltas (PyNum a) ts =
     (if small_deltas ts = [] then PyNum a else NpNum (Fin (a + sum_list (small_deltas ts))))"
  by (induction "PyNum a" ts rule: accumulate_deltas.induct)
     (simp_all add: small_deltas_def acc_add_def accumulate_deltas_Np[unfolded small_deltas_def])

lemma small_deltas_length: "small_deltas ts \<noteq> [] \<Longrightarrow> 2 \<le> length ts"
  by (cases ts rule: successive_deltas.cases) (simp_all add: small_deltas_def)

text \<open>
  C6, as the code has it. When at least one successive delta is below 100, the estimator
  returns the reciprocal of the sum of the deltas below 100 divided by the number of all
  timestamps; the reciprocal is numpy's, so a sum of zero gives an infinite frequency.
\<close>

theorem sampling_frequency_formula:
  assumes "small_deltas ts \<noteq> []"
  shows "establish_sampling_frequency ts =
     Inr (NpNum (if sum_list (small_deltas ts) = 0 then PInf
                 else Fin (1 / (sum_list (small_deltas ts) / real (length ts)))))"
proof -
  have "ts \<noteq> []" using small_deltas_length[OF assms] by auto
  with assms show ?thesis
    by (simp add: establish_sampling_frequency_def accumulate_deltas_Py div_by_len_def py_recip_def)
qed

theorem sampling_frequency_formula_witness:
  "small_deltas [0, 1/2, 1, 3/2] \<noteq> [] \<and> establish_sampling_frequency [0, 1/2, 1, 3/2] = Inr (NpNum (Fin (8/3)))"
  using sampling_frequency_formula[of "[0, 1/2, 1, 3/2]"] by (simp add: small_deltas_def)

text \<open>
  C6 as stated covers every timestamp sequence. With a single timestamp there is no
  delta: the accumulator is still Python's integer 0, and \<^verbatim>\<open>1 / 0.0\<close> raises.
\<close>

theorem sampling_frequency_single_counterexample:
  "establish_sampling_frequency [5] = Inl ZeroDivisionError"
  by (simp add: establish_sampling_frequency_def div_by_len_def py_recip_def)

text \<open>
  C7, as the code has it. When every successive delta is at least 100, nothing is added
  to the accumulator, which stays the Python integer 0; the estimator then raises
  \<^verbatim>\<open>ZeroDivisionError\<close> and returns no frequency.
\<close>

theorem sampling_frequency_no_small_delta:
  assumes "\<forall>d \<in> set (successive_deltas ts). 100 \<le> d"
  shows "establish_sampling_frequency ts = Inl ZeroDivisionError"
proof -
  have "small_deltas ts = []"
    using assms by (auto simp add: small_deltas_def filter_empty_conv)
  then show ?thesis
    by (simp add: establish_sampling_frequency_def accumulate_deltas_Py div_by_len_def py_recip_def)
qed

theorem sampling_frequency_no_small_delta_witness:
  "successive_deltas [0, 100, 250] = [100, 150] \<and> (100::real) \<le> 100 \<and> (100::real) \<le> 150 \<and>
   establish_sampling_frequency [0, 100, 250] = Inl ZeroDivisionError"
  using sampling_frequency_no_small_delta[of "[0, 100, 250]"] by simp

text \<open>
  C7 as stated promises a frequency of 0 and no exception; on two timestamps 100 apart
  the estimator raises.
\<close>

theorem sampling_frequency_large_gap_counterexample:
  "successive_deltas [0, 100] = [100] \<and> establish_sampling_frequency [0, 100] = Inl ZeroDivisionError"
  by (simp add: establish_sampling_frequency_def div_by_len_def py_recip_def)

section \<open>Properties of the window-length derivation\<close>

lemma mod2_zero_iff: "(q::real) - 2 * of_int \<lfloor>q / 2\<rfloor> = 0 \<longleftrightarrow> q / 2 \<in> \<int>"
proof
  assume "q - 2 * of_int \<lfloor>q / 2\<rfloor> = 0"
  then have "q / 2 = of_int \<lfloor>q / 2\<rfloor>" by simp
  then show "q / 2 \<in> \<int>" by (metis Ints_of_int)
next
  assume "q / 2 \<in> \<int>"
  then have "of_int \<lfloor>q / 2\<rfloor> = q / 2" by (auto simp add: Ints_def)
  then show "q - 2 * of_int \<lfloor>q / 2\<rfloor> = 0" by simp
qed

lemma even_quotient_int: assumes "(q::real) / 2 \<in> \<int>" shows "of_int \<lfloor>q\<rfloor> = q"
proof -
  from assms obtain k :: int where "q / 2 = of_int k" by (auto simp: Ints_def)
  then have "q = of_int (2 * k)" by simp
  then show ?thesis by (metis floor_of_int)
qed

lemma py_int_of_int: "py_int (Fin (of_int n)) = Inr n"
  by simp

lemma fl_nonzero_mod2: "fl_nonzero (fl_mod2 (Fin q)) \<longleftrightarrow> q / 2 \<notin> \<int>"
  using mod2_zero_iff[of q] by simp

text \<open>
  C8, as the code has it. Let \<open>f\<close> be the frequency the estimator returns. When \<open>f\<close> is
  finite and at least 1, the constructor succeeds, and with \<open>q\<close> the quotient
  \<open>d / floor f\<close> as the machine rounds it the window length is the ceiling of \<open>q\<close> when
  \<open>q\<close> is not an even integer, and \<open>q\<close> itself (its floor) when it is. When \<open>f\<close> is
  infinite the quotient is 0 and so is the window length. When \<open>0 < f < 1\<close> the floor is
  0, the quotient is infinite or NaN, and the constructor raises \<^verbatim>\<open>OverflowError\<close>
  (\<^verbatim>\<open>ValueError\<close> for \<open>d = 0\<close>). The position starts at 0 and the overlap is the one given.
\<close>

theorem window_length_derivation:
  "(estimate ts = Inr (NpNum (Fin f)) \<and> 1 \<le> f \<longrightarrow>
        Metrics_init estimate rdiv ts d ov =
          Inr \<lparr>window_length =
                 (if rdiv d (of_int \<lfloor>f\<rfloor>) / 2 \<in> \<int> then \<lfloor>rdiv d (of_int \<lfloor>f\<rfloor>)\<rfloor>
                  else \<lceil>rdiv d (of_int \<lfloor>f\<rfloor>)\<rceil>),
               current_position = 0, window_overlap = ov\<rparr>)
     \<and> (estimate ts = Inr (NpNum PInf) \<longrightarrow>
        Metrics_init estimate rdiv ts d ov =
          Inr \<lparr>window_length = 0, current_position = 0, window_overlap = ov\<rparr>)
     \<and> (estimate ts = Inr (NpNum (Fin f)) \<and> 0 < f \<and> f < 1 \<longrightarrow>
        Metrics_init estimate rdiv ts d ov = Inl (if d = 0 then ValueError else OverflowError))"
proof (intro conjI impI)
  assume "estimate ts = Inr (NpNum (Fin f)) \<and> 1 \<le> f"
  then have est: "estimate ts = Inr (NpNum (Fin f))" and f: "1 \<le> f" by simp_all
  define q where "q = rdiv d (of_int \<lfloor>f\<rfloor>)"
  have "(of_int \<lfloor>f\<rfloor> :: real) \<noteq> 0" using f by simp linarith
  then have quot: "np_truediv rdiv (Fin d) (np_floor (NpNum (Fin f))) = Fin q"
    by (simp add: q_def)
  have init: "Metrics_init estimate rdiv ts d ov =
      (case py_int (if fl_nonzero (fl_mod2 (Fin q)) then fl_ceil (Fin q) else Fin q) of
         Inl e \<Rightarrow> Inl e
       | Inr n \<Rightarrow> Inr \<lparr>window_length = n, current_position = 0, window_overlap = ov\<rparr>)"
    by (simp only: Metrics_init_def est Let_def sum.case quot)
  show "Metrics_init estimate rdiv ts d ov =
          Inr \<lparr>window_length =
                 (if rdiv d (of_int \<lfloor>f\<rfloor>) / 2 \<in> \<int> then \<lfloor>rdiv d (of_int \<lfloor>f\<rfloor>)\<rfloor>
                  else \<lceil>rdiv d (of_int \<lfloor>f\<rfloor>)\<rceil>),
               current_position = 0, window_overlap = ov\<rparr>"
  proof (cases "q / 2 \<in> \<int>")
    case True
    then have "Fin q = Fin (of_int \<lfloor>q\<rfloor>)" by (simp add: even_quotient_int)
    then have "py_int (Fin q) = Inr \<lfloor>q\<rfloor>" using py_int_of_int[of "\<lfloor>q\<rfloor>"] by simp
    with True show ?thesis
      unfolding init q_def[symmetric]
      by (simp only: fl_nonzero_mod2 if_True if_False simp_thms sum.case)
  next
    case False
    have "py_int (fl_ceil (Fin q)) = Inr \<lceil>q\<rceil>" using py_int_of_int[of "\<lceil>q\<rceil>"] by simp
    with False show ?thesis
      unfolding init q_def[symmetric]
      by (simp only: fl_nonzero_mod2 if_True if_False simp_thms sum.case)
  qed
next
  assume "estimate ts = Inr (NpNum PInf)"
  then show "Metrics_init estimate rdiv ts d ov =
          Inr \<lparr>window_length = 0, current_position = 0, window_overlap = ov\<rparr>"
    by (simp add: Metrics_init_def)
next
  assume "estimate ts = Inr (NpNum (Fin f)) \<and> 0 < f \<and> f < 1"
  then have est: "estimate ts = Inr (NpNum (Fin f))" and f: "0 < f" "f < 1" by simp_all
  have "\<lfloor>f\<rfloor> = 0" using f by linarith
  then have "np_truediv rdiv (Fin d) (np_floor (NpNum (Fin f))) =
      (if d = 0 then NaN else if 0 < d then PInf else NInf)"
    by simp
  then have "Metrics_init estimate rdiv ts d ov =
      (case py_int (if d = 0 then NaN else if 0 < d then PInf else NInf) of
         Inl e \<Rightarrow> Inl e
       | Inr n \<Rightarrow> Inr \<lparr>window_length = n, current_position = 0, window_overlap = ov\<rparr>)"
    using est by (auto simp add: Metrics_init_def Let_def)
  then show "Metrics_init estimate rdiv ts d ov = Inl (if d = 0 then ValueError else OverflowError)"
    by simp
qed

text \<open>
  Three timestamp sequences on which every step is exact in doubles: \<open>[0, 1, 1, 2]\<close> has
  the frequency 2, \<open>[1, 1]\<close> an infinite one, and \<open>[0, 3, 6]\<close> the frequency \<open>1/2\<close>.
\<close>

theorem window_length_derivation_witness:
  "establish_sampling_frequency [0, 1, 1, 2] = Inr (NpNum (Fin 2)) \<and> (1::real) \<le> 2 \<and>
   Metrics_init establish_sampling_frequency (/) [0, 1, 1, 2] 7 1
     = Inr \<lparr>window_length = 4, current_position = 0, window_overlap = 1\<rparr> \<and>
   establish_sampling_frequency [1, 1] = Inr (NpNum PInf) \<and>
   Metrics_init establish_sampling_frequency (/) [1, 1] 7 2
     = Inr \<lparr>window_length = 0, current_position = 0, window_overlap = 2\<rparr> \<and>
   establish_sampling_frequency [0, 3, 6] = Inr (NpNum (Fin (1/2))) \<and> (0::real) < 1/2 \<and>
   (1::real) / 2 < 1 \<and>
   Metrics_init establish_sampling_frequency (/) [0, 3, 6] 0 1 = Inl ValueError"
proof -
  have f1: "establish_sampling_frequency [0, 1, 1, 2] = Inr (NpNum (Fin 2))"
    by (simp add: establish_sampling_frequency_def div_by_len_def py_recip_def acc_add_def)
  have f2: "establish_sampling_frequency [1, 1] = Inr (NpNum PInf)"
    by (simp add: establish_sampling_frequency_def div_by_len_def py_recip_def acc_add_def)
  have f3: "establish_sampling_frequency [0, 3, 6] = Inr (NpNum (Fin (1/2)))"
    by (simp add: establish_sampling_frequency_def div_by_len_def py_recip_def acc_add_def)
  have "(7::real) / 2 / 2 \<notin> \<int>"
  proof
    assume "(7::real) / 2 / 2 \<in> \<int>"
    then obtain k :: int where "(7::real) / 2 / 2 = of_int k" by (auto simp: Ints_def)
    then have "(7::real) = of_int (4 * k)" by simp
    then have "(7::int) = 4 * k" using of_int_eq_iff[where 'a=real, of 7 "4*k"] by simp
    then show False by presburger
  qed
  moreover have "\<lceil>7/2::real\<rceil> = 4" by simp
  ultimately have w1: "Metrics_init establish_sampling_frequency (/) [0, 1, 1, 2] 7 1
     = Inr \<lparr>window_length = 4, current_position = 0, window_overlap = 1\<rparr>"
    using f1 window_length_derivation[where estimate = establish_sampling_frequency
        and ts = "[0, 1, 1, 2]" and f = 2 and rdiv = "(/)" and d = 7 and ov = 1]
    by simp
  have w2: "Metrics_init establish_sampling_frequency (/) [1, 1] 7 2
     = Inr \<lparr>window_length = 0, current_position = 0, window_overlap = 2\<rparr>"
    using f2 window_length_derivation[where estimate = establish_sampling_frequency
        and ts = "[1, 1]" and rdiv = "(/)" and d = 7 and ov = 2]
    by simp
  have w3: "Metrics_init establish_sampling_frequency (/) [0, 3, 6] 0 1 = Inl ValueError"
    using f3 window_length_derivation[where estimate = establish_sampling_frequency
        and ts = "[0, 3, 6]" and f = "1/2" and rdiv = "(/)" and d = 0 and ov = 1]
    by simp
  from f1 f2 f3 w1 w2 w3 show ?thesis by simp
qed

text \<open>
  C8 as stated covers every strictly positive frequency. The timestamps \<open>[0, 2, 4]\<close> give
  a frequency of \<open>3/4\<close>: its floor is 0, the quotient \<open>10 / 0\<close> is infinite, and \<^verbatim>\<open>int\<close>
  raises \<^verbatim>\<open>OverflowError\<close>.
\<close>

theorem window_length_low_frequency_counterexample:
  "establish_sampling_frequency [0, 2, 4] = Inr (NpNum (Fin (3/4))) \<and> (0::real) < 3/4 \<and>
   Metrics_init establish_sampling_frequency (/) [0, 2, 4] 10 1 = Inl OverflowError"
  by (simp add: Metrics_init_def establish_sampling_frequency_def div_by_len_def py_recip_def acc_add_def)

section \<open>Properties of the feature functions\<close>

text \<open>
  C4, as the code has it. \<^verbatim>\<open>zero_crossings\<close> reads \<^verbatim>\<open>x[0]\<close> before its loop, so it raises
  \<^verbatim>\<open>IndexError\<close> exactly on the empty window, and so does \<^verbatim>\<open>mean_crossings\<close>, which
  calls it; on every other window both return a count.
\<close>

theorem crossings_raise_iff_empty:
  "(zero_crossings x = Inl IndexError) = (x = []) \<and>
   (mean_crossings x = Inl IndexError) = (x = []) \<and>
   (\<exists>c. zero_crossings x = Inr c) = (x \<noteq> []) \<and>
   (\<exists>c. mean_crossings x = Inr c) = (x \<noteq> [])"
  by (cases x) (simp_all add: zero_crossings_def mean_crossings_def)

theorem crossings_raise_iff_empty_witness:
  "zero_crossings [Fin 1, Fin (- 1), Fin 1, Fin (- 1)] \<noteq> Inl IndexError \<and>
   mean_crossings [Fin 1, Fin (- 1), Fin 1, Fin (- 1)] \<noteq> Inl IndexError"
  using crossings_raise_iff_empty[of "[Fin 1, Fin (- 1), Fin 1, Fin (- 1)]"] by simp

text \<open>
  C4 as stated promises a value on the empty window; both functions raise there.
\<close>

theorem crossings_empty_window_counterexample:
  "zero_crossings [] = Inl IndexError \<and> mean_crossings [] = Inl IndexError"
  by (simp add: zero_crossings_def mean_crossings_def)

text \<open>The two examples of the specification.\<close>

lemma zc_examples:
  "zero_crossings [Fin 1, Fin (- 1), Fin 1, Fin (- 1)] = Inr 3"
  "zero_crossings [Fin 1, Fin 1, Fin 1] = Inr 0"
  by (simp_all add: zero_crossings_def sign_def)

section \<open>Properties of the spectral entropy\<close>











section \<open>Properties of the label analytics\<close>

lemma where_first_takeWhile:
  "where_first us l = (if l \<in> set us then Inr (length (takeWhile (\<lambda>u. u \<noteq> l) us)) else Inl IndexError)"
  by (induction us) auto

lemma takeWhile_upto_int:
  "m < k \<Longrightarrow> takeWhile (\<lambda>u. u \<noteq> int m) (map int [0..<k]) = map int [0..<m]"
proof (induction k)
  case 0
  then show ?case by simp
next
  case (Suc k)
  show ?case
  proof (cases "m < k")
    case True
    then have "int m \<in> set (map int [0..<k])" by simp
    then have "takeWhile (\<lambda>u. u \<noteq> int m) (map int [0..<k] @ [int k]) =
        takeWhile (\<lambda>u. u \<noteq> int m) (map int [0..<k])"
      by (intro takeWhile_append1) simp_all
    with True Suc.IH show ?thesis by simp
  next
    case False
    with Suc.prems have mk: "m = k" by simp
    have "takeWhile (\<lambda>u. u \<noteq> int k) (map int [0..<k] @ [int k]) =
        map int [0..<k] @ takeWhile (\<lambda>u. u \<noteq> int k) [int k]"
      by (intro takeWhile_append2) auto
    with mk show ?thesis by simp
  qed
qed

lemma where_first_label:
  assumes "labels_are_indices labels" "l \<in> set labels"
  shows "where_first (unique_lab labels) l = Inr (nat l)"
proof -
  define k where "k = length (unique_lab labels)"
  have u: "unique_lab labels = map int [0..<k]"
    using assms(1) by (simp add: labels_are_indices_def k_def)
  have "l \<in> set (unique_lab labels)" using assms(2) by (simp add: unique_lab_def)
  then obtain m where m: "l = int m" "m < k" using u by auto
  then show ?thesis
    by (simp add: u where_first_takeWhile takeWhile_upto_int)
qed

lemma speed_step_ok:
  assumes "0 < idx" "idx < length labels" "length labels \<le> length timestamps"
    and "labels_are_indices labels"
    and "nat (labels ! (idx - 1)) < length adjacency"
    and "nat (labels ! idx) < length (adjacency ! nat (labels ! (idx - 1)))"
  shows "speed_step labels timestamps adjacency idx (c, t) =
     Inr (c[idx := fl_add (c ! idx)
                    (Fin (adjacency ! nat (labels ! (idx - 1)) ! nat (labels ! idx)))],
          t[idx := fl_add (t ! idx) (Fin (timestamps ! (idx - 1) - timestamps ! idx))])"
proof -
  have "labels ! (idx - 1) \<in> set labels" "labels ! idx \<in> set labels"
    using assms(1,2) by simp_all
  then show ?thesis
    using assms by (simp add: speed_step_def where_first_label adjacency_at_def item_def)
qed

lemma speed_loop_fold:
  assumes "\<forall>idx \<in> set idxs. 0 < idx \<and> idx < length labels \<and>
             nat (labels ! (idx - 1)) < length adjacency \<and>
             nat (labels ! idx) < length (adjacency ! nat (labels ! (idx - 1)))"
    and "length labels \<le> length timestamps" "labels_are_indices labels"
  shows "speed_loop labels timestamps adjacency idxs (c, t) =
     Inr (fold (bump (weight_at labels adjacency)) idxs c, fold (bump (delta_at timestamps)) idxs t)"
  using assms
proof (induction idxs arbitrary: c t)
  case Nil
  show ?case by simp
next
  case (Cons idx idxs)
  have step: "speed_step labels timestamps adjacency idx (c, t) =
      Inr (bump (weight_at labels adjacency) idx c, bump (delta_at timestamps) idx t)"
    using Cons.prems speed_step_ok[of idx labels timestamps adjacency c t]
    by (simp add: bump_def weight_at_def delta_at_def)
  show ?case
    using Cons.IH[of "bump (weight_at labels adjacency) idx c" "bump (delta_at timestamps) idx t"] Cons.prems
    by (simp add: step)
qed

lemma length_fold_bump: "length (fold (bump f) idxs a) = length a"
  by (induction idxs arbitrary: a) (simp_all add: bump_def[abs_def])

lemma nth_bump:
  "k < length a \<Longrightarrow> bump f idx a ! k = (if k = idx then fl_add (a ! k) (Fin (f k)) else a ! k)"
  by (simp add: bump_def nth_list_update)

lemma length_bump: "length (bump f idx a) = length a"
  by (simp add: bump_def)

lemma nth_fold_bump:
  assumes "distinct idxs" "k < length a"
  shows "fold (bump f) idxs a ! k = (if k \<in> set idxs then fl_add (a ! k) (Fin (f k)) else a ! k)"
  using assms
proof (induction idxs arbitrary: a)
  case Nil
  show ?case by simp
next
  case (Cons idx idxs)
  have ih: "fold (bump f) idxs (bump f idx a) ! k =
      (if k \<in> set idxs then fl_add (bump f idx a ! k) (Fin (f k)) else bump f idx a ! k)"
    using Cons.IH[of "bump f idx a"] Cons.prems by (simp add: length_bump)
  show ?case
  proof (cases "k = idx")
    case True
    with Cons.prems ih show ?thesis by (simp add: nth_bump)
  next
    case False
    with Cons.prems ih show ?thesis by (simp add: nth_bump)
  qed
qed

lemma distances_eq:
  assumes "length c = n" "length t = n" "0 < n"
    and "\<And>k. k < n \<Longrightarrow> fl_div (c ! k) (t ! k) = (if k = 0 then NaN else r k)"
  shows "map2 fl_div c t = NaN # map r [1..<n]"
proof (rule nth_equalityI)
  show "length (map2 fl_div c t) = length (NaN # map r [1..<n])"
    using assms(1-3) by simp
next
  fix k assume "k < length (map2 fl_div c t)"
  then have k: "k < n" using assms(1,2) by simp
  then show "map2 fl_div c t ! k = (NaN # map r [1..<n]) ! k"
    using assms by (cases k) simp_all
qed

lemma covers_in_range:
  assumes "covers adjacency labels" "idx \<in> set [1..<length labels]"
  shows "nat (labels ! (idx - 1)) < length adjacency"
    and "nat (labels ! idx) < length (adjacency ! nat (labels ! (idx - 1)))"
proof -
  from assms have r: "nat (labels ! (idx - 1)) < length adjacency" "nat (labels ! idx) < length adjacency"
    by (auto simp add: covers_def list_all_iff)
  from assms(1) have "\<forall>row \<in> set adjacency. length row = length adjacency"
    by (simp add: covers_def list_all_iff)
  with r(1) have "length (adjacency ! nat (labels ! (idx - 1))) = length adjacency"
    by simp
  with r show "nat (labels ! (idx - 1)) < length adjacency"
    and "nat (labels ! idx) < length (adjacency ! nat (labels ! (idx - 1)))"
    by simp_all
qed

text \<open>
  C1, as the code has it, on the windows whose labels are their own indices in the
  matrix (the distinct labels are \<open>0, \<dots>, k - 1\<close>; the code reads the matrix at the
  position of a label among the distinct labels of the window, and what it returns on
  other windows is left open here). For such labels with aligned timestamps and a matrix
  that covers the observed pairs, \<^verbatim>\<open>speed\<close> raises nothing and returns the absolute value
  of the mean of the ratios of the consecutive pairs: the weight of (previous label,
  current label) over the previous timestamp minus the current one. Only NaN ratios
  (zero weight over zero time) are left out of the mean; an infinite ratio stays in it,
  and the mean of no ratio is NaN.
\<close>

theorem speed_abs_of_nanmean:
  assumes "length timestamps = length labels" "covers adjacency labels"
    and "labels_are_indices labels"
  shows "speed labels timestamps adjacency =
     Inr (fl_abs (np_mean (filter (\<lambda>v. \<not> isnan v) (pair_ratios labels timestamps adjacency))))"
proof -
  define n where "n = length labels"
  define c where "c = fold (bump (weight_at labels adjacency)) [1..<n] (replicate n (Fin 0))"
  define t where "t = fold (bump (delta_at timestamps)) [1..<n] (replicate n (Fin 0))"
  have loop: "speed_loop labels timestamps adjacency [1..<n] (replicate n (Fin 0), replicate n (Fin 0)) = Inr (c, t)"
    unfolding c_def t_def
  proof (intro speed_loop_fold ballI conjI)
    fix idx assume idx: "idx \<in> set [1..<n]"
    then show "0 < idx" "idx < length labels" by (simp_all add: n_def)
    from idx show "nat (labels ! (idx - 1)) < length adjacency"
      and "nat (labels ! idx) < length (adjacency ! nat (labels ! (idx - 1)))"
      using covers_in_range[OF assms(2), of idx] by (simp_all add: n_def)
  qed (use assms in simp_all)
  have len: "length c = n" "length t = n"
    by (simp_all add: c_def t_def length_fold_bump)
  have ck: "c ! k = (if k = 0 then Fin 0 else Fin (weight_at labels adjacency k))" if "k < n" for k
    using that nth_fold_bump[of "[1..<n]" k "replicate n (Fin 0)" "weight_at labels adjacency"]
    by (auto simp add: c_def)
  have tk: "t ! k = (if k = 0 then Fin 0 else Fin (delta_at timestamps k))" if "k < n" for k
    using that nth_fold_bump[of "[1..<n]" k "replicate n (Fin 0)" "delta_at timestamps"]
    by (auto simp add: t_def)
  have res: "speed labels timestamps adjacency = Inr (fl_abs (nanmean (map2 fl_div c t)))"
    using loop by (simp add: speed_def Let_def n_def[symmetric])
  show ?thesis
  proof (cases "n = 0")
    case True
    then show ?thesis using len res
      by (simp add: nanmean_def pair_ratios_def n_def[symmetric])
  next
    case False
    have "map2 fl_div c t = NaN # map (pair_ratio labels timestamps adjacency) [1..<n]"
    proof (rule distances_eq)
      fix k assume "k < n"
      then show "fl_div (c ! k) (t ! k) = (if k = 0 then NaN else pair_ratio labels timestamps adjacency k)"
        by (simp add: ck tk pair_ratio_def weight_at_def delta_at_def)
    qed (use len False in simp_all)
    then show ?thesis using res
      by (simp add: nanmean_def pair_ratios_def n_def[symmetric])
  qed
qed

lemma speed_eval_helper: "unique_lab [0, 1, 0] = [0, 1]"
  by (simp add: unique_lab_def)

theorem speed_abs_of_nanmean_witness:
  "length [0, 1, 3 :: real] = length [0, 1, 0 :: int] \<and> covers [[0, 1], [1, 0]] [0, 1, 0] \<and>
   labels_are_indices [0, 1, 0] \<and>
   speed [0, 1, 0] [0, 1, 3] [[0, 1], [1, 0]] = Inr (Fin (3 / 4))"
proof -
  have cov: "covers [[0, 1], [1, 0]] [0, 1, 0]"
    by (simp add: covers_def upt_conv_Cons)
  have ind: "labels_are_indices [0, 1, 0]"
    by (simp add: labels_are_indices_def speed_eval_helper upt_conv_Cons)
  have "pair_ratios [0, 1, 0] [0, 1, 3] [[0, 1], [1, 0]] = [Fin (-1), Fin (- 1 / 2)]"
    by (simp add: pair_ratios_def pair_ratio_def upt_conv_Cons)
  then show ?thesis
    using speed_abs_of_nanmean[of "[0, 1, 3]" "[0, 1, 0]" "[[0, 1], [1, 0]]"] cov ind
    by (simp add: np_mean_def fl_sum_def)
qed

lemma speed_eval_helper2: "unique_lab [1, 2] = [1, 2]"
  by (simp add: unique_lab_def)

text \<open>
  C1 as stated leaves every non-finite ratio out, averages absolute values and looks the
  weight of the pair of labels up. With two samples at the same time the ratio is
  infinite and so is the result, where the mean of the absolute values of the finite
  ratios is 1. With timestamps that go back the ratios \<open>-1\<close> and \<open>1\<close> have the mean 0,
  where the mean of their absolute values is 1. On the window \<open>[1, 2]\<close> the code reads the
  matrix at row 0 and column 1, the positions of the two labels among the distinct
  labels of the window, where the weight of the pair (1, 2) is at row 1 and column 2.
\<close>

theorem speed_infinite_ratio_counterexample:
  "speed [0, 1, 0] [0, 0, 1] [[0, 1], [1, 0]] = Inr PInf \<and>
   speed_as_specified [0, 1, 0] [0, 0, 1] [[0, 1], [1, 0]] = Fin 1 \<and>
   speed [0, 1, 0] [0, 1, 0] [[0, 1], [1, 0]] = Inr (Fin 0) \<and>
   speed_as_specified [0, 1, 0] [0, 1, 0] [[0, 1], [1, 0]] = Fin 1 \<and>
   covers [[0, 1, 2], [1, 0, 3], [2, 3, 0]] [1, 2] \<and>
   speed [1, 2] [0, 1] [[0, 1, 2], [1, 0, 3], [2, 3, 0]] = Inr (Fin 1) \<and>
   speed_as_specified [1, 2] [0, 1] [[0, 1, 2], [1, 0, 3], [2, 3, 0]] = Fin 3"
  by (simp add: speed_def speed_step_def speed_as_specified_def pair_ratios_def pair_ratio_def
        speed_eval_helper speed_eval_helper2 upt_conv_Cons adjacency_at_def item_def nanmean_def
        np_mean_def fl_sum_def covers_def)

text \<open>
  C2 at the labels \<open>[1, 1, 2]\<close> with timestamps \<open>[0, 10, 20]\<close>. The distinct labels are 1
  and 2, so there are two entries, but the label of entry \<open>i\<close> is read from the samples
  (\<^verbatim>\<open>labels_[idx_outer]\<close>), not from the distinct labels: both entries are the average gap
  of label 1. Label 2 occurs once, its average is 0, and no entry holds it.
\<close>

theorem average_time_indexes_samples:
  "average_time_between_labels [1, 1, 2] [0, 10, 20] True = Inr [10, 10] \<and>
   unique_lab [1, 1, 2] = [1, 2] \<and>
   establish_sampling_frequency [0, 10, 20] = Inr (NpNum (Fin (3 / 20))) \<and>
   label_average [1, 1, 2] [0, 10, 20] True (NpNum (Fin (3 / 20))) 1 = Inr 10 \<and>
   label_average [1, 1, 2] [0, 10, 20] True (NpNum (Fin (3 / 20))) 2 = Inr 0"
proof -
  have u: "unique_lab [1, 1, 2] = [1, 2]" by (simp add: unique_lab_def)
  have f: "establish_sampling_frequency [0, 10, 20] = Inr (NpNum (Fin (3 / 20)))"
    by (simp add: establish_sampling_frequency_def div_by_len_def py_recip_def acc_add_def)
  have one: "label_average [1, 1, 2] [0, 10, 20] True (NpNum (Fin (3 / 20))) 1 = Inr 10"
    by (simp add: label_average_def upt_conv_Cons item_def np_diff_def is_nominal_def
          py_recip_def isclose_def)
  have two: "label_average [1, 1, 2] [0, 10, 20] True (NpNum (Fin (3 / 20))) 2 = Inr 0"
    by (simp add: label_average_def upt_conv_Cons item_def np_diff_def)
  have "average_time_between_labels [1, 1, 2] [0, 10, 20] True = Inr [10, 10]"
    by (simp add: average_time_between_labels_def f u upt_conv_Cons one)
  with u f one two show ?thesis by simp
qed

end
